theory Spec2Isabelle
  imports Complex_Main "HOL-Library.Product_Lexorder" "HOL-Library.Multiset"
begin

unbundle bit_operations_syntax

section \<open>Quality filter: decoding the MOD11A1 QC bitfield\<close>

text \<open>
  \<^verbatim>\<open>_qc_decode\<close> of \<^verbatim>\<open>preprocessing/modis_processor.py\<close> works on an
  \<^verbatim>\<open>int64\<close> array element by element. A QC code is an \<^typ>\<open>int\<close>;
  \<^verbatim>\<open>&\<close> and \<^verbatim>\<open>>>\<close> of Python and numpy on signed integers are
  the two's complement \<open>AND\<close> and the arithmetic shift \<open>drop_bit\<close> of HOL.
  \<open>qc_decode_pixel\<close> is the body of the function at one element, \<open>qc_decode\<close>
  the function on a two-dimensional raster (a list of rows).
\<close>

definition qa_mand :: "int \<Rightarrow> int" where
  "qa_mand ok_qc = ok_qc AND 3"

definition qa_data :: "int \<Rightarrow> int" where
  "qa_data ok_qc = (drop_bit 2 ok_qc) AND 3"

definition lst_err :: "int \<Rightarrow> int" where
  "lst_err ok_qc = (drop_bit 5 ok_qc) AND 1"

definition qc_decode_pixel :: "int \<Rightarrow> int \<Rightarrow> bool" where
  "qc_decode_pixel ok_qc qc_tol =
     (let mand_ok = (if qc_tol > 2 then qa_mand ok_qc \<le> 2 else qa_mand ok_qc \<le> 1);
          data_ok = (if qc_tol > 1 then qa_data ok_qc \<le> 2 else qa_data ok_qc \<le> 1);
          err_ok = (lst_err ok_qc = 0)
      in mand_ok \<and> data_ok \<and> err_ok)"

definition qc_decode :: "int list list \<Rightarrow> int \<Rightarrow> bool list list" where
  "qc_decode ok_qc qc_tol = map (map (\<lambda>c. qc_decode_pixel c qc_tol)) ok_qc"

text \<open>The number of accepted pixels of a mask, \<^verbatim>\<open>mask.sum()\<close>.\<close>

definition accepted_count :: "bool list list \<Rightarrow> nat" where
  "accepted_count msk = length (filter (\<lambda>b. b) (concat msk))"

section \<open>Grid normalizer: \<^verbatim>\<open>DataNormalizer\<close> of \<^verbatim>\<open>preprocessing/data_processor.py\<close>\<close>


text \<open>Python's \<^verbatim>\<open>int(x)\<close> on a float: truncation toward zero.\<close>

definition py_int :: "real \<Rightarrow> int" where
  "py_int x = (if 0 \<le> x then \<lfloor>x\<rfloor> else \<lceil>x\<rceil>)"

subsection \<open>\<^verbatim>\<open>normalize_temperature\<close>\<close>




subsection \<open>\<^verbatim>\<open>calculate_aqi\<close> inside \<^verbatim>\<open>normalize_air_quality\<close>\<close>

type_synonym breakpoint = "real \<times> real \<times> real \<times> real"

definition aqi_breakpoints :: "(string \<times> breakpoint list) list" where
  "aqi_breakpoints =
     [(''pm25'', [(0, 30, 0, 50), (30, 60, 51, 100), (60, 90, 101, 200),
                  (90, 120, 201, 300), (120, 250, 301, 400)]),
      (''pm10'', [(0, 50, 0, 50), (50, 100, 51, 100), (100, 250, 101, 200),
                  (250, 350, 201, 300), (350, 430, 301, 400)]),
      (''no2'', [(0, 40, 0, 50), (40, 80, 51, 100), (80, 180, 101, 200),
                 (180, 280, 201, 300), (280, 400, 301, 400)]),
      (''so2'', [(0, 40, 0, 50), (40, 80, 51, 100), (80, 380, 101, 200),
                 (380, 800, 201, 300), (800, 1600, 301, 400)])]"

text \<open>The interpolation formula of one breakpoint piece (the loop body's assignment).\<close>

fun aqi_piece :: "breakpoint \<Rightarrow> real \<Rightarrow> real" where
  "aqi_piece (c_low, c_high, aqi_low, aqi_high) concentration =
     ((aqi_high - aqi_low) / (c_high - c_low)) * (concentration - c_low) + aqi_low"

definition in_piece :: "breakpoint \<Rightarrow> real \<Rightarrow> bool" where
  "in_piece bp concentration = (fst bp \<le> concentration \<and> concentration \<le> fst (snd bp))"

text \<open>The \<^verbatim>\<open>for\<close> loop over the breakpoints: the first piece that holds the
  concentration decides, and 400 is returned when the loop ends.\<close>

fun aqi_loop :: "breakpoint list \<Rightarrow> real \<Rightarrow> int" where
  "aqi_loop [] concentration = 400"
| "aqi_loop (bp # breakpoints) concentration =
     (if in_piece bp concentration then py_int (aqi_piece bp concentration)
      else aqi_loop breakpoints concentration)"

definition calculate_aqi :: "real \<Rightarrow> string \<Rightarrow> int" where
  "calculate_aqi concentration pollutant =
     (case map_of aqi_breakpoints pollutant of
        None \<Rightarrow> 50
      | Some breakpoints \<Rightarrow> aqi_loop breakpoints concentration)"

subsection \<open>\<^verbatim>\<open>normalize_precipitation\<close>\<close>








section \<open>Scoring engine: \<^verbatim>\<open>recommendations/recommendation_engine.py\<close>\<close>

subsection \<open>Recommendations and their ranking\<close>

datatype InterventionType =
  AIR_QUALITY | HEAT_MITIGATION | FLOOD_DEFENSE | HEALTHCARE | GREEN_SPACE | INFRASTRUCTURE

datatype Priority = CRITICAL | HIGH | MEDIUM | LOW

record Recommendation =
  ward_number :: int
  ward_name :: string
  intervention_type :: InterventionType
  priority :: Priority
  title :: string
  description :: string
  estimated_cost_usd :: real
  estimated_impact :: string
  implementation_timeline :: string
  affected_population :: int
  metrics :: "(string \<times> real) list"
  coordinates :: "(real \<times> real) option"





subsection \<open>\<^verbatim>\<open>calculate_city_resilience_score\<close>\<close>

text \<open>
  \<^verbatim>\<open>analysis_results\<close> is a dictionary of data frames. A key that is absent is
  \<open>None\<close>; a data frame is the column the score reads (for \<^verbatim>\<open>heat_islands\<close>,
  of which only the number of rows is read, that number), so an empty data frame is the
  empty list.
\<close>

record analysis_results =
  ward_air_quality :: "real list option"      \<comment> \<open>column \<^verbatim>\<open>mean_aqi\<close>\<close>
  heat_islands :: "nat option"                \<comment> \<open>number of rows\<close>
  healthcare_gaps :: "string list option"     \<comment> \<open>column \<^verbatim>\<open>priority\<close>\<close>
  healthcare_capacity :: "real list option"   \<comment> \<open>column \<^verbatim>\<open>facilities_per_1000\<close>\<close>
  green_space_deficits :: "real list option"  \<comment> \<open>column \<^verbatim>\<open>combined_green_score\<close>\<close>
  flood_zones :: "real list option"           \<comment> \<open>column \<^verbatim>\<open>flood_risk_score\<close>\<close>
  drainage_analysis :: "real list option"     \<comment> \<open>column \<^verbatim>\<open>avg_flood_risk\<close>\<close>

record resilience_scores =
  air_quality_score :: real
  heat_resilience_score :: real
  flood_resilience_score :: real
  healthcare_access_score :: real
  green_space_score :: real
  overall_resilience_score :: real

record recommendations_summary =
  total_recommendations :: nat
  critical_priority :: nat
  high_priority :: nat
  medium_priority :: nat
  low_priority :: nat
  total_estimated_cost_usd :: real
  avg_cost_per_recommendation :: real

record resilience_result =
  scores :: resilience_scores
  summary :: recommendations_summary
  city_status :: string

text \<open>The mean of a non-empty column (\<^verbatim>\<open>Series.mean()\<close>, \<^verbatim>\<open>np.mean\<close>).\<close>

definition mean :: "real list \<Rightarrow> real" where
  "mean xs = sum_list xs / real (length xs)"

definition determine_city_status :: "real \<Rightarrow> string" where
  "determine_city_status overall_score =
     (if overall_score \<ge> 80 then ''Highly Resilient''
      else if overall_score \<ge> 65 then ''Moderately Resilient''
      else if overall_score \<ge> 50 then ''Developing Resilience''
      else if overall_score \<ge> 35 then ''Vulnerable''
      else ''Highly Vulnerable'')"

definition air_quality_score_of :: "analysis_results \<Rightarrow> real" where
  "air_quality_score_of ar =
     (case ward_air_quality ar of
        None \<Rightarrow> 50
      | Some ward_air \<Rightarrow>
          if ward_air = [] then 50
          else
            let avg_aqi = mean ward_air;
                s = (if avg_aqi \<le> 50 then 100
                     else if avg_aqi \<le> 100 then 100 - (avg_aqi - 50)
                     else if avg_aqi \<le> 200 then 50 - (avg_aqi - 100) * 0.3
                     else if avg_aqi \<le> 300 then 20 - (avg_aqi - 200) * 0.2
                     else 0)
            in max 0 s)"

definition heat_resilience_score_of :: "analysis_results \<Rightarrow> real" where
  "heat_resilience_score_of ar =
     (case heat_islands ar of
        None \<Rightarrow> 50
      | Some total_area \<Rightarrow>
          if total_area = 0 then 50
          else
            let heat_coverage = min (real total_area / 1000) 1.0
            in max 0 (100 - (heat_coverage * 80)))"

definition healthcare_access_score_of :: "analysis_results \<Rightarrow> real" where
  "healthcare_access_score_of ar =
     (case healthcare_gaps ar of
        Some health_gaps \<Rightarrow>
          if health_gaps = [] then 50
          else
            let critical_gaps = length (filter (\<lambda>p. p = ''Critical'') health_gaps);
                total_gaps = length health_gaps;
                gap_ratio = real critical_gaps / real total_gaps
            in max 0 (100 - (gap_ratio * 100))
      | None \<Rightarrow>
          (case healthcare_capacity ar of
             None \<Rightarrow> 50
           | Some health_cap \<Rightarrow>
               if health_cap = [] then 50
               else
                 let avg_facilities_per_1000 = mean health_cap
                 in min 100 (avg_facilities_per_1000 * 100)))"

definition green_space_score_of :: "analysis_results \<Rightarrow> real" where
  "green_space_score_of ar =
     (case green_space_deficits ar of
        None \<Rightarrow> 50
      | Some green_def \<Rightarrow>
          if green_def = [] then 50
          else
            let avg_green_score = mean green_def
            in avg_green_score)"

definition flood_resilience_score_of :: "analysis_results \<Rightarrow> real" where
  "flood_resilience_score_of ar =
     (case flood_zones ar of
        Some fz \<Rightarrow>
          if fz = [] then 50
          else
            let high_risk_zones = length (filter (\<lambda>r. r \<ge> 0.5) fz);
                total_zones = length fz;
                risk_ratio = real high_risk_zones / real total_zones
            in max 0 (100 - (risk_ratio * 80))
      | None \<Rightarrow>
          (case drainage_analysis ar of
             None \<Rightarrow> 50
           | Some drainage_data \<Rightarrow>
               if drainage_data = [] then 50
               else
                 let avg_flood_risk = mean drainage_data
                 in max 0 (100 - (avg_flood_risk * 100))))"

text \<open>
  The function: the five scores start at 50 and are overwritten in the order air quality,
  heat, healthcare, green space, flood; the overall score is \<^verbatim>\<open>np.mean\<close> of all
  values of the dictionary but the last, which are the five domain scores.
\<close>

definition calculate_city_resilience_score ::
  "analysis_results \<Rightarrow> Recommendation list \<Rightarrow> resilience_result" where
  "calculate_city_resilience_score ar recommendations =
     (let aq = air_quality_score_of ar;
          heat = heat_resilience_score_of ar;
          health = healthcare_access_score_of ar;
          green = green_space_score_of ar;
          flood = flood_resilience_score_of ar;
          overall = mean [aq, heat, flood, health, green];
          total_cost = sum_list (map estimated_cost_usd recommendations)
      in \<lparr>scores =
            \<lparr>air_quality_score = aq, heat_resilience_score = heat,
             flood_resilience_score = flood, healthcare_access_score = health,
             green_space_score = green, overall_resilience_score = overall\<rparr>,
          summary =
            \<lparr>total_recommendations = length recommendations,
             critical_priority = length (filter (\<lambda>rec. priority rec = CRITICAL) recommendations),
             high_priority = length (filter (\<lambda>rec. priority rec = HIGH) recommendations),
             medium_priority = length (filter (\<lambda>rec. priority rec = MEDIUM) recommendations),
             low_priority = length (filter (\<lambda>rec. priority rec = LOW) recommendations),
             total_estimated_cost_usd = total_cost,
             avg_cost_per_recommendation =
               (if recommendations \<noteq> [] then total_cost / real (length recommendations) else 0)\<rparr>,
          city_status = determine_city_status overall\<rparr>)"

text \<open>
  The column \<^verbatim>\<open>combined_green_score\<close> comes from
  \<^verbatim>\<open>identify_green_space_deficits\<close> in \<^verbatim>\<open>analytics/urban_analytics.py\<close>: for
  a ward with the given green area, population and NDVI green score it is the green
  space per person over the target of 9 square metres, times 50, plus half the NDVI
  score.
\<close>

definition green_space_target_sqm_per_person :: real where
  "green_space_target_sqm_per_person = 9.0"

definition combined_green_score :: "real \<Rightarrow> int \<Rightarrow> real \<Rightarrow> real" where
  "combined_green_score total_green_area population ndvi_green_score =
     (let green_space_per_person =
            (if population > 0 then total_green_area / real_of_int population else 0)
      in (green_space_per_person / green_space_target_sqm_per_person * 50)
           + (ndvi_green_score / 2))"

section \<open>Coordinate projector: \<^verbatim>\<open>MODISProcessor\<close> of \<^verbatim>\<open>preprocessing/modis_processor.py\<close>\<close>









text \<open>\<^verbatim>\<open>np.linspace(start, stop, num)\<close>: \<open>num\<close> evenly spaced samples with both ends
  included; a single sample is \<open>start\<close>; a negative \<open>num\<close> raises \<^verbatim>\<open>ValueError\<close>.\<close>

definition linspace_samples :: "real \<Rightarrow> real \<Rightarrow> nat \<Rightarrow> real list" where
  "linspace_samples start stop n =
     (if n = 1 then [start]
      else map (\<lambda>i. start + real i * ((stop - start) / real (n - 1))) [0..<n])"




section \<open>Region extraction: \<^verbatim>\<open>_process_omi_hdf_file\<close> of \<^verbatim>\<open>data_ingestion/real_nasa_apis.py\<close>\<close>

text \<open>
  The function opens an HDF-EOS file, takes the first swath, reads its geolocation
  fields and selects the data field of the product. The model starts from what has
  been read: the latitude and longitude arrays (absent when the swath has no such
  field) and the selected data array, all flattened. A data value is a
  \<^typ>\<open>real option\<close>, \<open>None\<close> being NaN. The random sample that
  \<^verbatim>\<open>np.random.lognormal(mean, sigma, (25, 25))\<close> draws is the parameter
  \<open>lognormal\<close>. Arrays of different sizes make the masking raise, and the function's
  \<^verbatim>\<open>except\<close> branch then returns \<^verbatim>\<open>None\<close>.
\<close>

record region_bounds =
  north :: real
  south :: real
  east :: real
  west :: real

text \<open>\<^verbatim>\<open>settings.mumbai_bounds\<close> of \<^verbatim>\<open>config.py\<close>.\<close>

definition mumbai_bounds :: region_bounds where
  "mumbai_bounds = \<lparr>north = 19.3, south = 18.8, east = 72.9, west = 72.7\<rparr>"

record swath =
  lat_data :: "real list option"
  lon_data :: "real list option"
  main_data :: "real option list"

record omi_dataset =
  lat :: "real list"
  lon :: "real list"
  data_vars :: "(string \<times> real option list list) list"

text \<open>\<^verbatim>\<open>main_data[main_data > 0]\<close>: a comparison with NaN is false.\<close>

definition positive_values :: "real option list \<Rightarrow> real list" where
  "positive_values xs =
     List.map_filter (\<lambda>v. case v of None \<Rightarrow> None | Some x \<Rightarrow> if x > 0 then Some x else None) xs"

text \<open>\<^verbatim>\<open>np.nanmean\<close> and \<^verbatim>\<open>np.nanstd\<close> of the positive values; NaN when there
  are none.\<close>

definition global_mean_of :: "real option list \<Rightarrow> real option" where
  "global_mean_of xs =
     (let pos = positive_values xs in if pos = [] then None else Some (mean pos))"

definition global_std_of :: "real option list \<Rightarrow> real option" where
  "global_std_of xs =
     (let pos = positive_values xs
      in if pos = [] then None
         else Some (sqrt (mean (map (\<lambda>x. (x - mean pos)\<^sup>2) pos))))"

text \<open>The grid \<^verbatim>\<open>np.random.lognormal(0, 0.3, (25, 25)) * global_mean\<close>.\<close>

definition synthetic_grid :: "(real \<Rightarrow> real \<Rightarrow> real list list) \<Rightarrow> real option \<Rightarrow> real option list list" where
  "synthetic_grid lognormal global_mean =
     map (map (\<lambda>s. map_option (\<lambda>g. s * g) global_mean)) (lognormal 0 0.3)"

text \<open>The grid drawn from the swath's global statistics when more than 5 pixels lie
  in the region and none of them is valid.\<close>

definition statistical_grid :: "(real \<Rightarrow> real \<Rightarrow> real list list) \<Rightarrow> real option list \<Rightarrow> real option list list" where
  "statistical_grid lognormal xs =
     (case (global_mean_of xs, global_std_of xs) of
        (Some global_mean, Some global_std) \<Rightarrow>
          map (map Some)
            (lognormal (ln (global_mean + 1 / 10 ^ 10))
               (if global_mean > 0 then global_std / global_mean else 0.3))
      | _ \<Rightarrow> replicate 25 (replicate 25 None))"

text \<open>Inverse distance weighting of the valid pixels \<open>(lat, lon, value)\<close> onto the grid
  of \<open>lats\<close> and \<open>lons\<close>: the weight of a pixel is 1 over its squared distance plus \<open>1 / 10 ^ 10\<close>.\<close>

definition idw_grid :: "(real \<times> real \<times> real) list \<Rightarrow> real list \<Rightarrow> real list \<Rightarrow> real list list" where
  "idw_grid valid lats lons =
     map (\<lambda>la. map (\<lambda>lo.
         let weights = map (\<lambda>(pla, plo, v). 1.0 / ((sqrt ((la - pla)\<^sup>2 + (lo - plo)\<^sup>2))\<^sup>2 + 1 / 10 ^ 10)) valid;
             weights_sum = sum_list weights
         in sum_list (map2 (\<lambda>w (pla, plo, v). w * v) weights valid) / weights_sum) lons) lats"

definition in_region :: "region_bounds \<Rightarrow> real \<Rightarrow> real \<Rightarrow> real \<Rightarrow> bool" where
  "in_region b buffer la lo =
     (la \<ge> south b - buffer \<and> la \<le> north b + buffer \<and>
      lo \<ge> west b - buffer \<and> lo \<le> east b + buffer)"

definition process_omi_hdf_file ::
  "(real \<Rightarrow> real \<Rightarrow> real list list) \<Rightarrow> string \<Rightarrow> swath \<Rightarrow> omi_dataset option" where
  "process_omi_hdf_file lognormal product sw =
     (if main_data sw = [] then None
      else
        let lats = linspace_samples (south mumbai_bounds) (north mumbai_bounds) 25;
            lons = linspace_samples (west mumbai_bounds) (east mumbai_bounds) 25;
            grid_data =
              (case (lat_data sw, lon_data sw) of
                 (Some la, Some lo) \<Rightarrow>
                   if length la \<noteq> length lo then None
                   else
                     let buffer = 0.1;
                         mumbai_mask = map2 (in_region mumbai_bounds buffer) la lo
                     in if True \<in> set mumbai_mask then
                          let mumbai_pixels = length (filter (\<lambda>b. b) mumbai_mask)
                          in if mumbai_pixels > 5 then
                               if length (main_data sw) \<noteq> length mumbai_mask then None
                               else
                                 let mumbai = map snd (filter fst
                                        (zip mumbai_mask (zip la (zip lo (main_data sw)))));
                                     valid = List.map_filter
                                        (\<lambda>(pla, plo, v). case v of
                                             None \<Rightarrow> None
                                           | Some x \<Rightarrow> if x > 0 then Some (pla, plo, x) else None)
                                        mumbai
                                 in if valid \<noteq> [] then
                                      Some (map (map Some) (idw_grid valid lats lons))
                                    else Some (statistical_grid lognormal (main_data sw))
                             else Some (synthetic_grid lognormal (global_mean_of (main_data sw)))
                        else Some (synthetic_grid lognormal (global_mean_of (main_data sw)))
               | _ \<Rightarrow> Some (synthetic_grid lognormal (global_mean_of (main_data sw))))
        in case grid_data of
             None \<Rightarrow> None
           | Some g \<Rightarrow>
               let scaled = map (map (map_option (\<lambda>x. x * 10 ^ 15))) g;
                   vars =
                     (if product = ''OMNO2'' then
                        [(''NO2_column'', g), (''air_quality_index'', scaled)]
                      else if product = ''OMSO2'' then
                        [(''SO2_column'', g), (''air_quality_index'', scaled)]
                      else [(''air_quality_index'', g)])
               in Some \<lparr>lat = lats, lon = lons, data_vars = vars\<rparr>)"

section \<open>Properties of the quality filter\<close>

lemma lst_err_bit: "lst_err c = 0 \<longleftrightarrow> \<not> bit c 5"
  by (simp add: lst_err_def and_one_eq bit_iff_odd_drop_bit even_iff_mod_2_eq_zero)

lemma qc_decode_pixel_mono:
  "t1 \<le> t2 \<Longrightarrow> qc_decode_pixel c t1 \<Longrightarrow> qc_decode_pixel c t2"
  by (auto simp: qc_decode_pixel_def Let_def split: if_splits)

lemma filter_count_mono:
  "(\<And>x. x \<in> set xs \<Longrightarrow> P x \<Longrightarrow> Q x) \<Longrightarrow> length (filter P xs) \<le> length (filter Q xs)"
proof (induction xs)
  case Nil
  then show ?case by simp
next
  case (Cons x xs)
  then show ?case by (cases "P x") auto
qed

lemma accepted_count_qc_decode:
  "accepted_count (qc_decode qs t) = length (filter (\<lambda>c. qc_decode_pixel c t) (concat qs))"
  by (simp add: accepted_count_def qc_decode_def map_concat [symmetric] filter_map comp_def)

text \<open>
  C2. For every QC code and every tolerance, the decode accepts the pixel only if bit 5
  (the LST error bit) of the code is 0: no tolerance overrides the error-bit check.
\<close>

theorem qc_decode_error_bit:
  "qc_decode_pixel ok_qc qc_tol \<Longrightarrow> \<not> bit ok_qc 5"
  by (simp add: qc_decode_pixel_def Let_def lst_err_bit)

theorem qc_decode_error_bit_witness:
  "qc_decode_pixel 4 2 \<and> \<not> bit (4::int) 5 \<and> \<not> qc_decode_pixel 32 3 \<and> bit (32::int) 5"
proof -
  have a: "qc_decode_pixel 4 2"
    by (simp add: qc_decode_pixel_def qa_mand_def qa_data_def lst_err_def Let_def drop_bit_eq_div)
  have b: "bit (32::int) 5"
    by (simp add: bit_iff_odd_drop_bit drop_bit_eq_div)
  from qc_decode_error_bit [of 32 3] b have c: "\<not> qc_decode_pixel 32 3" by blast
  from a b c qc_decode_error_bit [OF a] show ?thesis by simp
qed

text \<open>
  C3. For every QC raster and tolerances \<open>t1 < t2\<close>, every pixel accepted at \<open>t1\<close> is
  accepted at \<open>t2\<close>, and so the accepted-pixel count at \<open>t2\<close> is at least the count at
  \<open>t1\<close>.
\<close>

theorem qc_decode_monotone:
  assumes "t1 < t2"
  shows "(\<forall>c. qc_decode_pixel c t1 \<longrightarrow> qc_decode_pixel c t2) \<and>
         accepted_count (qc_decode qs t1) \<le> accepted_count (qc_decode qs t2)"
proof -
  have m: "\<And>c. qc_decode_pixel c t1 \<Longrightarrow> qc_decode_pixel c t2"
    using assms qc_decode_pixel_mono [of t1 t2] by simp
  have "length (filter (\<lambda>c. qc_decode_pixel c t1) (concat qs))
          \<le> length (filter (\<lambda>c. qc_decode_pixel c t2) (concat qs))"
    by (rule filter_count_mono) (rule m)
  with m show ?thesis by (simp add: accepted_count_qc_decode)
qed

theorem qc_decode_monotone_witness:
  "(1::int) < 2 \<and> qc_decode_pixel 1 1 \<and> qc_decode_pixel 1 2 \<and>
   accepted_count (qc_decode [[0, 8, 32], [2, 1, 9]] 1) = 2 \<and>
   accepted_count (qc_decode [[0, 8, 32], [2, 1, 9]] 2) = 4 \<and>
   accepted_count (qc_decode [[0, 8, 32], [2, 1, 9]] 1)
     \<le> accepted_count (qc_decode [[0, 8, 32], [2, 1, 9]] 2)"
proof -
  have h: "(1::int) < 2" by simp
  have a: "qc_decode_pixel 1 1"
    by (simp add: qc_decode_pixel_def qa_mand_def qa_data_def lst_err_def Let_def drop_bit_eq_div)
  have c1: "accepted_count (qc_decode [[0, 8, 32], [2, 1, 9]] 1) = 2"
    by (simp add: accepted_count_def qc_decode_def qc_decode_pixel_def qa_mand_def qa_data_def
        lst_err_def Let_def drop_bit_eq_div)
  have c2: "accepted_count (qc_decode [[0, 8, 32], [2, 1, 9]] 2) = 4"
    by (simp add: accepted_count_def qc_decode_def qc_decode_pixel_def qa_mand_def qa_data_def
        lst_err_def Let_def drop_bit_eq_div)
  from qc_decode_monotone [OF h, of "[[0, 8, 32], [2, 1, 9]]"] a h c1 c2
  show ?thesis by simp
qed

section \<open>Properties of the AQI sub-index\<close>



lemma aqi_tables:
  assumes "map_of aqi_breakpoints pollutant = Some bps"
  shows "bps = [(0, 30, 0, 50), (30, 60, 51, 100), (60, 90, 101, 200),
                  (90, 120, 201, 300), (120, 250, 301, 400)]
       \<or> bps = [(0, 50, 0, 50), (50, 100, 51, 100), (100, 250, 101, 200),
                  (250, 350, 201, 300), (350, 430, 301, 400)]
       \<or> bps = [(0, 40, 0, 50), (40, 80, 51, 100), (80, 180, 101, 200),
                 (180, 280, 201, 300), (280, 400, 301, 400)]
       \<or> bps = [(0, 40, 0, 50), (40, 80, 51, 100), (80, 380, 101, 200),
                 (380, 800, 201, 300), (800, 1600, 301, 400)]"
  using assms by (auto simp: aqi_breakpoints_def split: if_splits)









text \<open>
  C5 as stated fails: at the NO2 concentration 40 the two pieces that share the boundary
  do not both give 50. The lower piece \<open>(0, 40, 0, 50)\<close> gives 50, the upper piece
  \<open>(40, 80, 51, 100)\<close> gives 51.
\<close>

theorem no2_boundary_counterexample:
  "\<not> (py_int (aqi_piece (0, 40, 0, 50) 40) = 50 \<and> py_int (aqi_piece (40, 80, 51, 100) 40) = 50) \<and>
   map_of aqi_breakpoints ''no2'' = Some [(0, 40, 0, 50), (40, 80, 51, 100), (80, 180, 101, 200),
                 (180, 280, 201, 300), (280, 400, 301, 400)]"
  by (simp add: py_int_def aqi_breakpoints_def)

lemma nth_cases5:
  assumes "Suc i < length [a, b, c, d, e]"
  shows "i = 0 \<or> i = 1 \<or> i = 2 \<or> i = 3"
  using assms by auto

text \<open>
  C5, amended. At the NO2 concentration 40, \<open>calculate_aqi\<close> returns 50: the loop meets
  the lower piece first. The upper piece evaluates to 51 there. For every pollutant's
  table and every two adjacent pieces, the upper bound of the lower piece is the lower
  bound of the next one; at this shared concentration the lower piece gives its upper
  index, the next piece gives that index plus 1, and \<open>calculate_aqi\<close> returns the lower
  piece's value. The interpolation jumps by 1 at every table boundary.
\<close>

theorem aqi_boundary_jump:
  "calculate_aqi 40 ''no2'' = 50 \<and>
   py_int (aqi_piece (0, 40, 0, 50) 40) = 50 \<and>
   py_int (aqi_piece (40, 80, 51, 100) 40) = 51 \<and>
   (\<forall>pollutant bps i.
      map_of aqi_breakpoints pollutant = Some bps \<and> Suc i < length bps \<longrightarrow>
        fst (bps ! Suc i) = fst (snd (bps ! i)) \<and>
        aqi_piece (bps ! i) (fst (snd (bps ! i))) = snd (snd (snd (bps ! i))) \<and>
        aqi_piece (bps ! Suc i) (fst (snd (bps ! i))) = snd (snd (snd (bps ! i))) + 1 \<and>
        calculate_aqi (fst (snd (bps ! i))) pollutant = \<lfloor>snd (snd (snd (bps ! i)))\<rfloor>)"
proof -
  have a: "calculate_aqi 40 ''no2'' = 50"
    by (simp add: calculate_aqi_def aqi_breakpoints_def in_piece_def py_int_def)
  have b: "py_int (aqi_piece (0, 40, 0, 50) 40) = 50" "py_int (aqi_piece (40, 80, 51, 100) 40) = 51"
    by (simp_all add: py_int_def)
  have g: "fst (bps ! Suc i) = fst (snd (bps ! i)) \<and>
        aqi_piece (bps ! i) (fst (snd (bps ! i))) = snd (snd (snd (bps ! i))) \<and>
        aqi_piece (bps ! Suc i) (fst (snd (bps ! i))) = snd (snd (snd (bps ! i))) + 1 \<and>
        calculate_aqi (fst (snd (bps ! i))) pollutant = \<lfloor>snd (snd (snd (bps ! i)))\<rfloor>"
    if t: "map_of aqi_breakpoints pollutant = Some bps" and i: "Suc i < length bps"
    for pollutant bps i
  proof -
    have calc: "\<And>c. calculate_aqi c pollutant = aqi_loop bps c"
      using t by (simp add: calculate_aqi_def)
    from aqi_tables [OF t] i have "i = 0 \<or> i = 1 \<or> i = 2 \<or> i = 3"
      by (auto dest: nth_cases5)
    with aqi_tables [OF t] show ?thesis
      by (auto simp: calc in_piece_def py_int_def)
  qed
  from a b g show ?thesis by blast
qed

theorem aqi_boundary_jump_witness:
  "map_of aqi_breakpoints ''so2'' =
     Some [(0, 40, 0, 50), (40, 80, 51, 100), (80, 380, 101, 200),
           (380, 800, 201, 300), (800, 1600, 301, 400)] \<and>
   Suc 2 < length [(0, 40, 0, 50), (40, 80, 51, 100), (80, 380, 101, 200),
           (380, 800, 201, 300), (800, 1600, 301, 400 :: real)] \<and>
   aqi_piece (80, 380, 101, 200) 380 = 200 \<and>
   aqi_piece (380, 800, 201, 300) 380 = 201 \<and>
   calculate_aqi 380 ''so2'' = 200"
proof -
  let ?bps = "[(0, 40, 0, 50), (40, 80, 51, 100), (80, 380, 101, 200),
           (380, 800, 201, 300), (800, 1600, 301, 400)] :: breakpoint list"
  have t: "map_of aqi_breakpoints ''so2'' = Some ?bps"
    by (simp add: aqi_breakpoints_def)
  have i: "Suc 2 < length ?bps" by simp
  from aqi_boundary_jump have
    "map_of aqi_breakpoints ''so2'' = Some ?bps \<and> Suc 2 < length ?bps \<longrightarrow>
        fst (?bps ! Suc 2) = fst (snd (?bps ! 2)) \<and>
        aqi_piece (?bps ! 2) (fst (snd (?bps ! 2))) = snd (snd (snd (?bps ! 2))) \<and>
        aqi_piece (?bps ! Suc 2) (fst (snd (?bps ! 2))) = snd (snd (snd (?bps ! 2))) + 1 \<and>
        calculate_aqi (fst (snd (?bps ! 2))) ''so2'' = \<lfloor>snd (snd (snd (?bps ! 2)))\<rfloor>"
    by blast
  with t i have "calculate_aqi (fst (snd (?bps ! 2))) ''so2'' = \<lfloor>snd (snd (snd (?bps ! 2)))\<rfloor>"
    by blast
  then have c: "calculate_aqi 380 ''so2'' = 200" by (simp add: numeral_2_eq_2)
  from t i c show ?thesis by simp
qed

section \<open>Properties of the temperature normalization\<close>




section \<open>Properties of the precipitation normalization\<close>







section \<open>Properties of the recommendation ranking\<close>





section \<open>Properties of the resilience score\<close>

lemma air_quality_score_range:
  "0 \<le> air_quality_score_of ar \<and> air_quality_score_of ar \<le> 100"
proof -
  have r: "0 \<le> max 0 (if a \<le> 50 then 100
                     else if a \<le> 100 then 100 - (a - 50)
                     else if a \<le> 200 then 50 - (a - 100) * 0.3
                     else if a \<le> 300 then 20 - (a - 200) * 0.2
                     else 0) \<and>
           max 0 (if a \<le> 50 then 100
                     else if a \<le> 100 then 100 - (a - 50)
                     else if a \<le> 200 then 50 - (a - 100) * 0.3
                     else if a \<le> 300 then 20 - (a - 200) * 0.2
                     else 0) \<le> (100::real)" for a :: real
    by (auto simp: max_def field_simps)
  show ?thesis
    unfolding air_quality_score_of_def Let_def
    using r by (simp split: option.splits)
qed

lemma heat_resilience_score_range:
  "0 \<le> heat_resilience_score_of ar \<and> heat_resilience_score_of ar \<le> 100"
  by (auto simp: heat_resilience_score_of_def Let_def split: option.splits)

lemma ratio_range:
  assumes "xs \<noteq> []"
  shows "0 \<le> real (length (filter P xs)) / real (length xs)"
    and "real (length (filter P xs)) / real (length xs) \<le> 1"
proof -
  have "length (filter P xs) \<le> length xs" by (rule length_filter_le)
  moreover from assms have "0 < length xs" by simp
  ultimately show "real (length (filter P xs)) / real (length xs) \<le> 1" by simp
  show "0 \<le> real (length (filter P xs)) / real (length xs)" by simp
qed

lemma healthcare_gaps_score_range:
  assumes "healthcare_gaps ar = Some gaps"
  shows "0 \<le> healthcare_access_score_of ar \<and> healthcare_access_score_of ar \<le> 100"
proof (cases "gaps = []")
  case True
  with assms show ?thesis by (simp add: healthcare_access_score_of_def)
next
  case False
  from ratio_range [OF False, of "\<lambda>p. p = ''Critical''"] assms False
  show ?thesis by (simp add: healthcare_access_score_of_def Let_def)
qed

lemma flood_zones_score_range:
  assumes "flood_zones ar = Some fz"
  shows "0 \<le> flood_resilience_score_of ar \<and> flood_resilience_score_of ar \<le> 100"
proof (cases "fz = []")
  case True
  with assms show ?thesis by (simp add: flood_resilience_score_of_def)
next
  case False
  from ratio_range [OF False, of "\<lambda>r. r \<ge> 0.5"] assms False
  show ?thesis by (simp add: flood_resilience_score_of_def Let_def)
qed

lemma overall_is_mean:
  "overall_resilience_score (scores (calculate_city_resilience_score ar recs)) =
     (air_quality_score (scores (calculate_city_resilience_score ar recs))
      + heat_resilience_score (scores (calculate_city_resilience_score ar recs))
      + flood_resilience_score (scores (calculate_city_resilience_score ar recs))
      + healthcare_access_score (scores (calculate_city_resilience_score ar recs))
      + green_space_score (scores (calculate_city_resilience_score ar recs))) / 5"
  by (simp add: calculate_city_resilience_score_def Let_def mean_def)

text \<open>
  C6 does not hold of the code. The air-quality and heat scores always lie in
  \<open>[0, 100]\<close>, as do the healthcare score computed from the gaps and the flood score
  computed from the flood zones, and the overall score is the mean of the five domain
  scores (the lemmas above). The green-space score is the mean of
  \<^verbatim>\<open>combined_green_score\<close> with no clamp: a single ward of 1000 people with
  90000 square metres of green space has the combined score 500, so that the
  green-space score is 500 and the overall score is 140.
\<close>

theorem green_space_score_unclamped:
  "green_space_score (scores (calculate_city_resilience_score
      \<lparr>ward_air_quality = None, heat_islands = None, healthcare_gaps = None,
       healthcare_capacity = None,
       green_space_deficits = Some [combined_green_score 90000 1000 0],
       flood_zones = None, drainage_analysis = None\<rparr> [])) = 500 \<and>
   overall_resilience_score (scores (calculate_city_resilience_score
      \<lparr>ward_air_quality = None, heat_islands = None, healthcare_gaps = None,
       healthcare_capacity = None,
       green_space_deficits = Some [combined_green_score 90000 1000 0],
       flood_zones = None, drainage_analysis = None\<rparr> [])) = 140"
  by (simp add: calculate_city_resilience_score_def Let_def mean_def green_space_score_of_def
      air_quality_score_of_def heat_resilience_score_of_def healthcare_access_score_of_def
      flood_resilience_score_of_def combined_green_score_def green_space_target_sqm_per_person_def)

section \<open>Properties of the coordinate projector\<close>














section \<open>Region extraction without coverage\<close>

text \<open>
  C1 does not hold of the code. For a swath none of whose pixels lies in the buffered
  region, \<open>process_omi_hdf_file\<close> returns a dataset, not \<^verbatim>\<open>None\<close>: its grid is
  the random log-normal sample scaled by the mean of the positive values of the whole
  swath. For a swath with more than 5 pixels in the region, all of them NaN, it returns
  a dataset whose grid is the random sample drawn with the swath's global statistics.
\<close>

theorem omi_region_without_coverage_is_synthetic:
  "process_omi_hdf_file lognormal ''OMNO2''
     \<lparr>lat_data = Some [10, 10.5], lon_data = Some [70, 70.5], main_data = [Some 2, Some 4]\<rparr> =
   Some \<lparr>lat = linspace_samples 18.8 19.3 25,
         lon = linspace_samples 72.7 72.9 25,
         data_vars =
           [(''NO2_column'', map (map (\<lambda>s. Some (s * 3))) (lognormal 0 0.3)),
            (''air_quality_index'', map (map (\<lambda>s. Some (s * 3 * 10 ^ 15))) (lognormal 0 0.3))]\<rparr> \<and>
   process_omi_hdf_file lognormal ''OMSO2''
     \<lparr>lat_data = Some [19, 19, 19, 19, 19, 19, 10],
      lon_data = Some [72.8, 72.8, 72.8, 72.8, 72.8, 72.8, 70],
      main_data = [None, None, None, None, None, None, Some 4]\<rparr> =
   Some \<lparr>lat = linspace_samples 18.8 19.3 25,
         lon = linspace_samples 72.7 72.9 25,
         data_vars =
           [(''SO2_column'', map (map Some) (lognormal (ln (4 + 1 / 10 ^ 10)) 0)),
            (''air_quality_index'',
               map (map (\<lambda>s. Some (s * 10 ^ 15))) (lognormal (ln (4 + 1 / 10 ^ 10)) 0))]\<rparr>"
proof (rule conjI)
  show "process_omi_hdf_file lognormal ''OMNO2''
     \<lparr>lat_data = Some [10, 10.5], lon_data = Some [70, 70.5], main_data = [Some 2, Some 4]\<rparr> =
   Some \<lparr>lat = linspace_samples 18.8 19.3 25,
         lon = linspace_samples 72.7 72.9 25,
         data_vars =
           [(''NO2_column'', map (map (\<lambda>s. Some (s * 3))) (lognormal 0 0.3)),
            (''air_quality_index'', map (map (\<lambda>s. Some (s * 3 * 10 ^ 15))) (lognormal 0 0.3))]\<rparr>"
    by (simp add: process_omi_hdf_file_def mumbai_bounds_def in_region_def synthetic_grid_def
        global_mean_of_def positive_values_def List.map_filter_simps mean_def Let_def comp_def)
  show "process_omi_hdf_file lognormal ''OMSO2''
     \<lparr>lat_data = Some [19, 19, 19, 19, 19, 19, 10],
      lon_data = Some [72.8, 72.8, 72.8, 72.8, 72.8, 72.8, 70],
      main_data = [None, None, None, None, None, None, Some 4]\<rparr> =
   Some \<lparr>lat = linspace_samples 18.8 19.3 25,
         lon = linspace_samples 72.7 72.9 25,
         data_vars =
           [(''SO2_column'', map (map Some) (lognormal (ln (4 + 1 / 10 ^ 10)) 0)),
            (''air_quality_index'',
               map (map (\<lambda>s. Some (s * 10 ^ 15))) (lognormal (ln (4 + 1 / 10 ^ 10)) 0))]\<rparr>"
    by (simp add: process_omi_hdf_file_def mumbai_bounds_def in_region_def statistical_grid_def
        global_mean_of_def global_std_of_def positive_values_def List.map_filter_simps mean_def
        Let_def comp_def)
qed

end
